theory Spec2Isabelle
  imports Complex_Main "HOL-Library.Word"
begin

section \<open>Life OS Mobile: token monitor and checkpoint protocol\<close>

text \<open>
  A shallow embedding of \<^verbatim>\<open>lib/token-monitor.ts\<close> (the token library),
  \<^verbatim>\<open>app/page.tsx\<close> (the chat page and its handlers) and
  \<^verbatim>\<open>app/api/checkpoint/route.ts\<close> (the checkpoint store routes).
\<close>

subsection \<open>JavaScript values\<close>

text \<open>
  A JavaScript string is a sequence of UTF-16 code units, and \<^verbatim>\<open>length\<close> and
  \<^verbatim>\<open>slice\<close> count code units. \<open>js\<close> writes an ASCII literal of the source.
\<close>

type_synonym jsstring = "16 word list"

definition js :: "string \<Rightarrow> jsstring" where
  "js s = map of_char s"

text \<open>
  Token counts are integers far below \<open>2 ^ 53\<close>, where a double is exact, so they are
  \<open>int\<close>. The one quotient the code takes, \<^verbatim>\<open>percentUsed\<close>, keeps the
  non-finite results a JavaScript division has; a finite quotient is the exact rational.
\<close>

datatype jsnum = Finite rat | PosInf | NegInf | NaN

text \<open>\<^verbatim>\<open>a >= b\<close> on numbers: false as soon as one side is NaN.\<close>

fun js_ge :: "jsnum \<Rightarrow> jsnum \<Rightarrow> bool" where
  "js_ge NaN _ = False"
| "js_ge _ NaN = False"
| "js_ge PosInf _ = True"
| "js_ge _ NegInf = True"
| "js_ge NegInf _ = False"
| "js_ge _ PosInf = False"
| "js_ge (Finite a) (Finite b) = (b \<le> a)"

text \<open>
  What reading a property of an object literal yields: an own numeric entry, a member
  inherited from \<^verbatim>\<open>Object.prototype\<close> (a function, or the prototype object itself
  for \<^verbatim>\<open>__proto__\<close>), or \<^verbatim>\<open>undefined\<close>.
\<close>

datatype jsval = JSNumber int | JSObject | JSUndefined

fun truthy :: "jsval \<Rightarrow> bool" where
  "truthy (JSNumber n) = (n \<noteq> 0)"
| "truthy JSObject = True"
| "truthy JSUndefined = False"

definition js_or :: "jsval \<Rightarrow> jsval \<Rightarrow> jsval" where
  "js_or a b = (if truthy a then a else b)"

text \<open>
  \<^verbatim>\<open>n / d\<close> for an integer \<open>n\<close>: a function or an object converts to NaN, and so
  does \<^verbatim>\<open>undefined\<close>; a zero divisor gives an infinity, or NaN for \<open>0 / 0\<close>.
\<close>

fun js_div :: "int \<Rightarrow> jsval \<Rightarrow> jsnum" where
  "js_div n (JSNumber d) =
     (if d \<noteq> 0 then Finite (of_int n / of_int d)
      else if n = 0 then NaN
      else if 0 < n then PosInf else NegInf)"
| "js_div n JSObject = NaN"
| "js_div n JSUndefined = NaN"

definition Object_prototype_keys :: "jsstring list" where
  "Object_prototype_keys =
     [js ''constructor'', js ''hasOwnProperty'', js ''isPrototypeOf'',
      js ''propertyIsEnumerable'', js ''toLocaleString'', js ''toString'',
      js ''valueOf'', js ''__proto__'', js ''__defineGetter__'',
      js ''__defineSetter__'', js ''__lookupGetter__'', js ''__lookupSetter__'']"

subsection \<open>The token library: data\<close>

datatype Role = User | Assistant

record Message =
  msg_id :: jsstring
  role :: Role
  content :: jsstring
  timestamp :: jsstring
  tokens :: "int option"

text \<open>
  The page declares \<^verbatim>\<open>TokenUsage\<close> with the four numeric fields; the library's
  \<^verbatim>\<open>TokenUsage\<close> has the same four and \<^verbatim>\<open>model\<close>.
\<close>

record PageTokenUsage =
  inputTokens :: int
  outputTokens :: int
  totalTokens :: int
  percentUsed :: jsnum

record TokenUsage = PageTokenUsage +
  model :: jsstring

datatype SessionStatus = SessionActive | SessionWarning | SessionCritical

subsection \<open>The token library: constants and functions\<close>

text \<open>
  \<^verbatim>\<open>MODEL_LIMITS[key]\<close>: the four own entries of the literal, then whatever the
  prototype chain answers.
\<close>

definition MODEL_LIMITS :: "jsstring \<Rightarrow> jsval" where
  "MODEL_LIMITS key =
     (if key = js ''claude-sonnet-4-20250514'' then JSNumber 180000
      else if key = js ''claude-opus-4-5-20251101'' then JSNumber 180000
      else if key = js ''claude-3-5-sonnet-20241022'' then JSNumber 180000
      else if key = js ''default'' then JSNumber 150000
      else if key \<in> set Object_prototype_keys then JSObject
      else JSUndefined)"

definition CHECKPOINT_THRESHOLD :: jsnum where
  "CHECKPOINT_THRESHOLD = Finite (70 / 100)"

definition WARNING_THRESHOLD :: jsnum where
  "WARNING_THRESHOLD = Finite (85 / 100)"

definition estimateTokens :: "jsstring \<Rightarrow> int" where
  "estimateTokens text = \<lceil>(of_nat (length text) :: rat) / 4\<rceil>"

text \<open>\<^verbatim>\<open>msg.tokens || estimateTokens(msg.content)\<close>: an absent count and a count of
  zero are both falsy.\<close>

definition messageTokens :: "Message \<Rightarrow> int" where
  "messageTokens msg =
     (case tokens msg of
        None \<Rightarrow> estimateTokens (content msg)
      | Some n \<Rightarrow> if n \<noteq> 0 then n else estimateTokens (content msg))"

text \<open>The body of the \<^verbatim>\<open>forEach\<close>, on the pair of running counters.\<close>

fun countMessages :: "Message list \<Rightarrow> int \<times> int \<Rightarrow> int \<times> int" where
  "countMessages [] acc = acc"
| "countMessages (msg # msgs) (inT, outT) =
     (if role msg = User
      then countMessages msgs (inT + messageTokens msg, outT)
      else countMessages msgs (inT, outT + messageTokens msg))"

definition calculateTokenUsage :: "Message list \<Rightarrow> jsstring \<Rightarrow> TokenUsage" where
  "calculateTokenUsage messages mdl =
     (let limit = js_or (MODEL_LIMITS mdl) (MODEL_LIMITS (js ''default''));
          (inT, outT) = countMessages messages (0, 0);
          total = inT + outT
      in \<lparr> inputTokens = inT, outputTokens = outT, totalTokens = total,
           percentUsed = js_div total limit, model = mdl \<rparr>)"

definition needsCheckpoint :: "'a PageTokenUsage_scheme \<Rightarrow> bool" where
  "needsCheckpoint tokenUsage = js_ge (percentUsed tokenUsage) CHECKPOINT_THRESHOLD"

definition isCritical :: "'a PageTokenUsage_scheme \<Rightarrow> bool" where
  "isCritical tokenUsage = js_ge (percentUsed tokenUsage) WARNING_THRESHOLD"

definition getSessionStatus :: "'a PageTokenUsage_scheme \<Rightarrow> SessionStatus" where
  "getSessionStatus tokenUsage =
     (if js_ge (percentUsed tokenUsage) WARNING_THRESHOLD then SessionCritical
      else if js_ge (percentUsed tokenUsage) CHECKPOINT_THRESHOLD then SessionWarning
      else SessionActive)"

subsection \<open>The token library: checkpoints and the continuation prompt\<close>

datatype CheckpointStatus = Active | Completed | Abandoned | Resumed | Superseded

text \<open>
  \<^verbatim>\<open>SessionCheckpoint\<close>. The usage type is a parameter: the library stores its own
  \<^verbatim>\<open>TokenUsage\<close>, the page posts the same shape with the page's. The values of
  \<^verbatim>\<open>contextVariables\<close> (\<^verbatim>\<open>Record<string, any>\<close>) are of a type \<open>'j\<close> left open.
\<close>

record ('u, 'j) SessionCheckpoint =
  cp_id :: jsstring
  cp_sessionId :: jsstring
  cp_timestamp :: jsstring
  cp_taskDescription :: jsstring
  cp_completedSteps :: "jsstring list"
  cp_currentStep :: jsstring
  cp_nextSteps :: "jsstring list"
  cp_messages :: "Message list"
  cp_tokenUsage :: 'u
  cp_contextVariables :: "(jsstring \<times> 'j) list"
  cp_status :: CheckpointStatus
  cp_continuationPrompt :: jsstring

definition nl :: jsstring where
  "nl = [0x0A]"

text \<open>\<^verbatim>\<open>Array.prototype.join\<close>.\<close>

fun join :: "jsstring \<Rightarrow> jsstring list \<Rightarrow> jsstring" where
  "join sep [] = []"
| "join sep [x] = x"
| "join sep (x # y # ys) = x @ sep @ join sep (y # ys)"

text \<open>\<^verbatim>\<open>xs.slice(-n)\<close>: the last \<open>n\<close> elements, all of them when there are fewer.\<close>

definition slice_last :: "nat \<Rightarrow> 'a list \<Rightarrow> 'a list" where
  "slice_last n xs = drop (length xs - n) xs"

text \<open>\<^verbatim>\<open>m.role.toUpperCase()\<close>.\<close>

fun roleUpperCase :: "Role \<Rightarrow> jsstring" where
  "roleUpperCase User = js ''USER''"
| "roleUpperCase Assistant = js ''ASSISTANT''"

definition summaryLine :: "nat \<Rightarrow> Message \<Rightarrow> jsstring" where
  "summaryLine width m = roleUpperCase (role m) @ js '': '' @ take width (content m) @ js ''...''"

definition instructionLine :: "jsstring \<Rightarrow> jsstring" where
  "instructionLine currentStep =
     js ''**INSTRUCTION:** Continue from '' @ [0x22] @ currentStep @ [0x22]
       @ js '' immediately. No confirmation needed.''"

text \<open>
  The library's generator. \<^verbatim>\<open>JSON.stringify(contextVariables, null, 2)\<close> is the
  parameter \<open>stringify\<close>; U+2705 and U+23F3 are the two step markers.
\<close>

definition generateContinuationPrompt ::
  "((jsstring \<times> 'j) list \<Rightarrow> jsstring) \<Rightarrow> ('u, 'j) SessionCheckpoint \<Rightarrow> jsstring" where
  "generateContinuationPrompt stringify checkpoint =
     (let recentMessages = slice_last 5 (cp_messages checkpoint);
          messagesSummary = join nl (map (summaryLine 200) recentMessages)
      in js ''## SESSION RESUME - '' @ cp_id checkpoint @ nl
         @ nl
         @ js ''**Task:** '' @ cp_taskDescription checkpoint @ nl
         @ nl
         @ js ''### Progress'' @ nl
         @ js ''**Completed:**'' @ nl
         @ join nl (map (\<lambda>s. js ''- '' @ [0x2705] @ js '' '' @ s) (cp_completedSteps checkpoint)) @ nl
         @ nl
         @ js ''**Current:** '' @ cp_currentStep checkpoint @ nl
         @ nl
         @ js ''**Next Steps:**'' @ nl
         @ join nl (map (\<lambda>s. js ''- '' @ [0x23F3] @ js '' '' @ s) (cp_nextSteps checkpoint)) @ nl
         @ nl
         @ js ''### Recent Context'' @ nl
         @ messagesSummary @ nl
         @ nl
         @ js ''### Variables'' @ nl
         @ stringify (cp_contextVariables checkpoint) @ nl
         @ nl
         @ instructionLine (cp_currentStep checkpoint))"

subsection \<open>The checkpoint store routes\<close>

text \<open>
  The table \<^verbatim>\<open>session_checkpoints\<close> of the migration, with its primary key on
  \<^verbatim>\<open>id\<close>, and the \<^verbatim>\<open>activities\<close> table the save also writes to. The columns
  declared NOT NULL or with a CHECK are never violated by a value of these types.
\<close>

record ('u, 'j) Row =
  row_id :: jsstring
  session_id :: jsstring
  task_description :: jsstring
  completed_steps :: "jsstring list"
  current_step :: jsstring
  next_steps :: "jsstring list"
  row_messages :: "Message list"
  token_usage :: 'u
  context_variables :: "(jsstring \<times> 'j) list"
  continuation_prompt :: jsstring
  row_status :: CheckpointStatus
  created_at :: jsstring
  updated_at :: jsstring

record Activity =
  activity_type :: jsstring
  platform :: jsstring
  domain :: jsstring
  start_time :: jsstring
  notes_checkpoint_id :: jsstring
  notes_task :: jsstring
  notes_token_percent_of :: rat
  timezone :: jsstring

record ('u, 'j) Database =
  session_checkpoints :: "('u, 'j) Row list"
  activities :: "Activity list"

datatype 'r Response = Json 'r | Status500 jsstring

fun statusCode :: "'r Response \<Rightarrow> nat" where
  "statusCode (Json _) = 200"
| "statusCode (Status500 _) = 500"

text \<open>
  \<^verbatim>\<open>checkpoint.tokenUsage.percentUsed\<close> as a factor of the product that the route
  rounds for the activity record: the number arrived in a JSON body, where a value that is
  not finite was written as \<^verbatim>\<open>null\<close>, and \<^verbatim>\<open>null\<close> counts as 0 in a product.
  \<^verbatim>\<open>Math.round\<close> of a hundred times this number is a rounding of doubles and is not
  computed here: the activity record keeps the number that the route rounds.
\<close>

fun receivedPercent :: "jsnum \<Rightarrow> rat" where
  "receivedPercent (Finite r) = r"
| "receivedPercent PosInf = 0"
| "receivedPercent NegInf = 0"
| "receivedPercent NaN = 0"

text \<open>
  The update that POST issues, on one row: an active row of the session becomes
  superseded. \<open>now\<close> is the database clock, which stamps \<^verbatim>\<open>updated_at\<close>.
\<close>

definition supersede :: "jsstring \<Rightarrow> jsstring \<Rightarrow> ('u, 'j) Row \<Rightarrow> ('u, 'j) Row" where
  "supersede sid now r =
     (if row_status r = Active \<and> session_id r = sid
      then r\<lparr>row_status := Superseded, updated_at := now\<rparr> else r)"

text \<open>The row that POST inserts.\<close>

definition insertedRow :: "('u, 'j) SessionCheckpoint \<Rightarrow> jsstring \<Rightarrow> ('u, 'j) Row" where
  "insertedRow checkpoint now =
     \<lparr> row_id = cp_id checkpoint,
       session_id = cp_sessionId checkpoint,
       task_description = cp_taskDescription checkpoint,
       completed_steps = cp_completedSteps checkpoint,
       current_step = cp_currentStep checkpoint,
       next_steps = cp_nextSteps checkpoint,
       row_messages = cp_messages checkpoint,
       token_usage = cp_tokenUsage checkpoint,
       context_variables = cp_contextVariables checkpoint,
       continuation_prompt = cp_continuationPrompt checkpoint,
       row_status = Active,
       created_at = cp_timestamp checkpoint,
       updated_at = now \<rparr>"

text \<open>The activity record that POST logs.\<close>

definition loggedActivity :: "('a PageTokenUsage_scheme, 'j) SessionCheckpoint \<Rightarrow> Activity" where
  "loggedActivity checkpoint =
     \<lparr> activity_type = js ''session_checkpoint'',
       platform = js ''life_os_mobile'',
       domain = js ''BUSINESS'',
       start_time = cp_timestamp checkpoint,
       notes_checkpoint_id = cp_id checkpoint,
       notes_task = cp_taskDescription checkpoint,
       notes_token_percent_of = receivedPercent (percentUsed (cp_tokenUsage checkpoint)),
       timezone = js ''America/New_York'' \<rparr>"

text \<open>
  POST: the update that supersedes (its result is not looked at), the insert, which the
  primary key refuses when the id is taken, then the activity record.
\<close>

definition POST ::
  "('a PageTokenUsage_scheme, 'j) Database \<Rightarrow> ('a PageTokenUsage_scheme, 'j) SessionCheckpoint
     \<Rightarrow> jsstring
     \<Rightarrow> ('a PageTokenUsage_scheme, 'j) Database \<times> ('a PageTokenUsage_scheme, 'j) Row Response" where
  "POST db checkpoint now =
     (let db1 = db\<lparr>session_checkpoints :=
                     map (supersede (cp_sessionId checkpoint) now) (session_checkpoints db)\<rparr>
      in if cp_id checkpoint \<in> set (map row_id (session_checkpoints db1))
         then (db1, Status500 (js ''Failed to save checkpoint''))
         else
           let data = insertedRow checkpoint now;
               db2 = db1\<lparr>session_checkpoints := session_checkpoints db1 @ [data]\<rparr>;
               db3 = db2\<lparr>activities := activities db2 @ [loggedActivity checkpoint]\<rparr>
           in (db3, Json data))"

text \<open>PATCH: \<^verbatim>\<open>.single()\<close> is an error unless exactly one row was updated.\<close>

definition PATCH ::
  "('u, 'j) Database \<Rightarrow> jsstring \<Rightarrow> CheckpointStatus \<Rightarrow> jsstring
     \<Rightarrow> ('u, 'j) Database \<times> ('u, 'j) Row Response" where
  "PATCH db ident status now =
     (let updated = map (\<lambda>r. if row_id r = ident
                               then r\<lparr>row_status := status, updated_at := now\<rparr> else r)
                        (session_checkpoints db);
          db1 = db\<lparr>session_checkpoints := updated\<rparr>
      in case filter (\<lambda>r. row_id r = ident) updated of
           [data] \<Rightarrow> (db1, Json data)
         | _ \<Rightarrow> (db1, Status500 (js ''Failed to update checkpoint'')))"

subsection \<open>The page: token accounting\<close>

definition MODEL_LIMIT :: int where
  "MODEL_LIMIT = 180000"

definition initialTokenUsage :: PageTokenUsage where
  "initialTokenUsage =
     \<lparr> inputTokens = 0, outputTokens = 0, totalTokens = 0, percentUsed = Finite 0 \<rparr>"

definition updateTokenUsage :: "PageTokenUsage \<Rightarrow> int \<Rightarrow> int \<Rightarrow> PageTokenUsage" where
  "updateTokenUsage prev newInputTokens newOutputTokens =
     (let total = totalTokens prev + newInputTokens + newOutputTokens
      in \<lparr> inputTokens = inputTokens prev + newInputTokens,
           outputTokens = outputTokens prev + newOutputTokens,
           totalTokens = total,
           percentUsed = js_div total (JSNumber MODEL_LIMIT) \<rparr>)"

subsection \<open>The GET route and the object it answers\<close>

text \<open>
  Values as they are at run time, where the declared types are not enforced: the values of
  the properties of a JSON object, and \<^verbatim>\<open>undefined\<close>, which reading a property that
  the object does not have gives. An object is the list of its properties.
\<close>

datatype json =
    Undefined
  | Str jsstring
  | StrList "jsstring list"
  | Msgs "Message list"
  | Usage PageTokenUsage
  | Vars "(jsstring \<times> unit) list"

type_synonym jsobject = "(jsstring \<times> json) list"

definition property :: "jsobject \<Rightarrow> jsstring \<Rightarrow> json" where
  "property obj key = (case map_of obj key of None \<Rightarrow> Undefined | Some v \<Rightarrow> v)"

text \<open>\<^verbatim>\<open>a || b\<close> and \<^verbatim>\<open>!a\<close> look at this: \<^verbatim>\<open>undefined\<close> and the empty string
  are falsy, arrays and objects are truthy.\<close>

fun truthyJson :: "json \<Rightarrow> bool" where
  "truthyJson Undefined = False"
| "truthyJson (Str s) = (s \<noteq> [])"
| "truthyJson _ = True"

fun statusName :: "CheckpointStatus \<Rightarrow> jsstring" where
  "statusName Active = js ''active''"
| "statusName Completed = js ''completed''"
| "statusName Abandoned = js ''abandoned''"
| "statusName Resumed = js ''resumed''"
| "statusName Superseded = js ''superseded''"

text \<open>
  A row as \<^verbatim>\<open>select('*')\<close> returns it: one property for each column of the table,
  under the column's name.
\<close>

definition rowObject :: "(PageTokenUsage, unit) Row \<Rightarrow> jsobject" where
  "rowObject r =
     [(js ''id'', Str (row_id r)),
      (js ''session_id'', Str (session_id r)),
      (js ''task_description'', Str (task_description r)),
      (js ''completed_steps'', StrList (completed_steps r)),
      (js ''current_step'', Str (current_step r)),
      (js ''next_steps'', StrList (next_steps r)),
      (js ''messages'', Msgs (row_messages r)),
      (js ''token_usage'', Usage (token_usage r)),
      (js ''context_variables'', Vars (context_variables r)),
      (js ''continuation_prompt'', Str (continuation_prompt r)),
      (js ''status'', Str (statusName (row_status r))),
      (js ''created_at'', Str (created_at r)),
      (js ''updated_at'', Str (updated_at r))]"

text \<open>
  \<^verbatim>\<open>order('created_at', { ascending: false }).limit(1)\<close>: a row that no other row
  is later than. \<open>later a b\<close> is the database's comparison of two timestamps.
\<close>

fun newestRow :: "(jsstring \<Rightarrow> jsstring \<Rightarrow> bool) \<Rightarrow> ('u, 'j) Row list \<Rightarrow> ('u, 'j) Row option" where
  "newestRow later [] = None"
| "newestRow later (r # rs) =
     (case newestRow later rs of
        None \<Rightarrow> Some r
      | Some r' \<Rightarrow> if later (created_at r') (created_at r) then Some r' else Some r)"

text \<open>
  GET with \<^verbatim>\<open>active=true\<close>: the most recent active row, as it is, or \<^verbatim>\<open>null\<close>
  (here \<open>None\<close>) when there is none, which is not an error.
\<close>

definition GET_active ::
  "(jsstring \<Rightarrow> jsstring \<Rightarrow> bool) \<Rightarrow> (PageTokenUsage, unit) Database \<Rightarrow> jsobject option Response" where
  "GET_active later db =
     Json (map_option rowObject
             (newestRow later (filter (\<lambda>r. row_status r = Active) (session_checkpoints db))))"

subsection \<open>The page: state and handlers\<close>

text \<open>
  The \<^verbatim>\<open>useState\<close> cells of \<^verbatim>\<open>LifeOSChat\<close>. The page declares an interface
  \<^verbatim>\<open>Checkpoint\<close> for \<^verbatim>\<open>activeCheckpoint\<close>, with the properties \<^verbatim>\<open>sessionId\<close>,
  \<^verbatim>\<open>tokenUsage\<close>, \<^verbatim>\<open>continuationPrompt\<close> and so on; what the cell holds is the
  object that \<^verbatim>\<open>res.json()\<close> returned.
\<close>

record PageState =
  messages :: "Message list"
  input :: jsstring
  isLoading :: bool
  sessionId :: jsstring
  tokenUsage :: PageTokenUsage
  showCheckpointModal :: bool
  activeCheckpoint :: "jsobject option"
  checkpointTask :: jsstring
  showResumePrompt :: bool

text \<open>
  What a \<^verbatim>\<open>fetch\<close> promise does: it rejects when the request cannot be made, and
  resolves with the response whatever its HTTP status.
\<close>

datatype FetchOutcome = Rejected | Resolved nat

text \<open>What \<^verbatim>\<open>fetch\<close> followed by \<^verbatim>\<open>res.json()\<close> gives: an exception, or the
  parsed body, which is \<^verbatim>\<open>null\<close> (here \<open>None\<close>) or an object.\<close>

datatype Fetched = NoBody | Body "jsobject option"

text \<open>The requests a handler sends, in order.\<close>

datatype Request =
    CheckpointPATCH json CheckpointStatus
  | CheckpointPOST "(PageTokenUsage, unit) SessionCheckpoint"
  | ChatPOST "(Role \<times> jsstring) list" jsstring

text \<open>
  A message object as a handler builds it at run time: its \<^verbatim>\<open>content\<close> is whatever
  value the handler put there.
\<close>

record RuntimeMessage =
  rm_id :: jsstring
  rm_role :: Role
  rm_content :: json
  rm_timestamp :: jsstring
  rm_tokens :: "int option"

definition atRuntime :: "Message \<Rightarrow> RuntimeMessage" where
  "atRuntime m = \<lparr> rm_id = msg_id m, rm_role = role m, rm_content = Str (content m),
                   rm_timestamp = timestamp m, rm_tokens = tokens m \<rparr>"

text \<open>
  The calls of the state setters that \<^verbatim>\<open>handleResume\<close> and \<^verbatim>\<open>handleSend\<close>
  make, with the values they pass; \<open>AppendMessage m\<close> is
  \<^verbatim>\<open>setMessages(prev => [...prev, m])\<close>.
\<close>

datatype StateUpdate =
    SetMessages json
  | SetTokenUsage json
  | SetSessionId json
  | SetShowResumePrompt bool
  | SetInput jsstring
  | SetIsLoading bool
  | AppendMessage RuntimeMessage

text \<open>The code units \<^verbatim>\<open>String.prototype.trim\<close> strips: white space and line
  terminators.\<close>

definition isWhiteSpace :: "16 word \<Rightarrow> bool" where
  "isWhiteSpace c =
     (c \<in> set [0x09, 0x0A, 0x0B, 0x0C, 0x0D, 0x20, 0xA0, 0x1680, 0x2028, 0x2029,
                0x202F, 0x205F, 0x3000, 0xFEFF]
      \<or> (0x2000 \<le> c \<and> c \<le> 0x200A))"

text \<open>\<^verbatim>\<open>!content.trim()\<close>.\<close>

definition trimsToEmpty :: "jsstring \<Rightarrow> bool" where
  "trimsToEmpty s = list_all isWhiteSpace s"

text \<open>
  The page's generator: it reads \<^verbatim>\<open>messages\<close> and \<^verbatim>\<open>checkpointTask\<close> of the
  render it belongs to.
\<close>

definition instructionLine_page :: jsstring where
  "instructionLine_page =
     js ''**INSTRUCTION:** Continue the conversation from where we left off. No need to reintroduce yourself or ask what we were doing - just pick up naturally.''"

definition generateContinuationPrompt_page :: "PageState \<Rightarrow> jsstring" where
  "generateContinuationPrompt_page seen =
     (let recentMessages = slice_last 6 (messages seen);
          summary = join nl (map (summaryLine 150) recentMessages)
      in js ''## SESSION RESUME'' @ nl
         @ nl
         @ js ''**Task:** ''
         @ (if checkpointTask seen \<noteq> [] then checkpointTask seen
            else js ''Continuing previous conversation'') @ nl
         @ nl
         @ js ''### Recent Context:'' @ nl
         @ summary @ nl
         @ nl
         @ instructionLine_page)"

text \<open>
  \<^verbatim>\<open>initSession\<close>, given what the request for the active checkpoint gave: the
  object is kept when its \<^verbatim>\<open>status\<close> is \<^verbatim>\<open>'active'\<close>; a new session id is drawn
  in every case.
\<close>

definition initSession :: "PageState \<Rightarrow> Fetched \<Rightarrow> jsstring \<Rightarrow> PageState" where
  "initSession seen fetched newSessionId =
     (let cur = (case fetched of
                   NoBody \<Rightarrow> seen
                 | Body None \<Rightarrow> seen
                 | Body (Some checkpoint) \<Rightarrow>
                     if property checkpoint (js ''status'') = Str (js ''active'')
                     then seen\<lparr>activeCheckpoint := Some checkpoint, showResumePrompt := True\<rparr>
                     else seen)
      in cur\<lparr>sessionId := newSessionId\<rparr>)"

text \<open>The start of the page against the route.\<close>

definition startThroughRoute ::
  "(jsstring \<Rightarrow> jsstring \<Rightarrow> bool) \<Rightarrow> (PageTokenUsage, unit) Database \<Rightarrow> PageState \<Rightarrow> jsstring
     \<Rightarrow> PageState" where
  "startThroughRoute later db seen newSessionId =
     (case GET_active later db of
        Json body \<Rightarrow> initSession seen (Body body) newSessionId
      | Status500 msg \<Rightarrow> initSession seen (Body (Some [(js ''error'', Str msg)])) newSessionId)"

text \<open>
  The progress line of the resume prompt, which is rendered when \<^verbatim>\<open>showResumePrompt\<close>
  is set and \<^verbatim>\<open>activeCheckpoint\<close> is not null: the number it rounds is
  \<^verbatim>\<open>activeCheckpoint.tokenUsage.percentUsed\<close>. Reading a property of \<^verbatim>\<open>undefined\<close>
  throws; on a value of another kind the property is \<^verbatim>\<open>undefined\<close>, NaN as a number.
  \<open>None\<close>: the prompt is not rendered.
\<close>

datatype RenderError = TypeError

definition resumePromptProgress :: "PageState \<Rightarrow> RenderError + jsnum option" where
  "resumePromptProgress seen =
     (case activeCheckpoint seen of
        None \<Rightarrow> Inr None
      | Some checkpoint \<Rightarrow>
          if \<not> showResumePrompt seen then Inr None
          else (case property checkpoint (js ''tokenUsage'') of
                  Undefined \<Rightarrow> Inl TypeError
                | Usage u \<Rightarrow> Inr (Some (percentUsed u))
                | _ \<Rightarrow> Inr (Some NaN)))"

text \<open>
  A handler is a closure over the state of the render that created it (\<open>seen\<close>). Fresh
  ids (\<^verbatim>\<open>uuidv4()\<close>) and the clock are arguments.

  \<open>handleSend_begin\<close> is \<^verbatim>\<open>handleSend\<close> up to its first \<^verbatim>\<open>await\<close>, the chat
  request; reading the answer's stream is not part of this model. When the content is
  not a string, \<^verbatim>\<open>content.trim()\<close> throws inside the asynchronous function before any
  update.
\<close>

definition handleSend_begin ::
  "PageState \<Rightarrow> json \<Rightarrow> jsstring \<Rightarrow> jsstring \<Rightarrow> jsstring \<Rightarrow> jsstring
     \<Rightarrow> StateUpdate list \<times> Request list" where
  "handleSend_begin seen overrideContent userId userTime assistantId assistantTime =
     (case (if truthyJson overrideContent then overrideContent else Str (input seen)) of
        Str text \<Rightarrow>
          if trimsToEmpty text \<or> isLoading seen then ([], [])
          else
            let userMessage = \<lparr> msg_id = userId, role = User, content = text,
                                timestamp = userTime, tokens = Some (estimateTokens text) \<rparr>;
                assistantMessage = \<lparr> msg_id = assistantId, role = Assistant, content = [],
                                     timestamp = assistantTime, tokens = None \<rparr>
            in ((if \<not> truthyJson overrideContent
                 then [AppendMessage (atRuntime userMessage), SetInput []] else [])
                @ [SetIsLoading True, AppendMessage (atRuntime assistantMessage)],
                [ChatPOST (map (\<lambda>m. (role m, content m)) (messages seen @ [userMessage]))
                          (sessionId seen)])
      | _ \<Rightarrow> ([], []))"

text \<open>
  \<^verbatim>\<open>handleResume\<close>. When the PATCH \<^verbatim>\<open>fetch\<close> rejects, the handler ends there with
  the exception, after the first four updates.
\<close>

definition handleResume ::
  "PageState \<Rightarrow> FetchOutcome \<Rightarrow> jsstring \<Rightarrow> jsstring
     \<Rightarrow> jsstring \<Rightarrow> jsstring \<Rightarrow> jsstring \<Rightarrow> jsstring \<Rightarrow> StateUpdate list \<times> Request list" where
  "handleResume seen patched resumeId resumeTime userId userTime assistantId assistantTime =
     (case activeCheckpoint seen of
        None \<Rightarrow> ([], [])
      | Some checkpoint \<Rightarrow>
          let first = [SetMessages (property checkpoint (js ''messages'')),
                       SetTokenUsage (property checkpoint (js ''tokenUsage'')),
                       SetSessionId (property checkpoint (js ''sessionId'')),
                       SetShowResumePrompt False];
              patch = CheckpointPATCH (property checkpoint (js ''id'')) Resumed
          in case patched of
               Rejected \<Rightarrow> (first, [patch])
             | Resolved _ \<Rightarrow>
                 let resumeMessage =
                       \<lparr> rm_id = resumeId, rm_role = User,
                         rm_content = property checkpoint (js ''continuationPrompt''),
                         rm_timestamp = resumeTime, rm_tokens = None \<rparr>;
                     (updates, sent) =
                       handleSend_begin seen (property checkpoint (js ''continuationPrompt''))
                         userId userTime assistantId assistantTime
                 in (first @ [AppendMessage resumeMessage] @ updates, patch # sent))"

text \<open>The object \<^verbatim>\<open>handleSaveCheckpoint\<close> posts.\<close>

definition checkpointToSave ::
  "PageState \<Rightarrow> jsstring \<Rightarrow> jsstring \<Rightarrow> (PageTokenUsage, unit) SessionCheckpoint" where
  "checkpointToSave seen newId now =
     \<lparr> cp_id = newId,
       cp_sessionId = sessionId seen,
       cp_timestamp = now,
       cp_taskDescription = (if checkpointTask seen \<noteq> [] then checkpointTask seen
                             else js ''Ongoing conversation''),
       cp_completedSteps =
         map (\<lambda>m. take 100 (content m))
             (slice_last 3 (filter (\<lambda>m. role m = Assistant) (messages seen))),
       cp_currentStep = js ''Awaiting continuation'',
       cp_nextSteps = [js ''Continue from checkpoint''],
       cp_messages = messages seen,
       cp_tokenUsage = tokenUsage seen,
       cp_contextVariables = [],
       cp_status = Active,
       cp_continuationPrompt = generateContinuationPrompt_page seen \<rparr>"

text \<open>
  \<^verbatim>\<open>handleSaveCheckpoint\<close>: the \<^verbatim>\<open>try\<close> block continues as soon as the
  \<^verbatim>\<open>fetch\<close> resolves, and the response is not looked at; \<^verbatim>\<open>catch\<close> runs only
  when it rejects.
\<close>

definition handleSaveCheckpoint ::
  "PageState \<Rightarrow> jsstring \<Rightarrow> jsstring \<Rightarrow> FetchOutcome \<Rightarrow> jsstring \<Rightarrow> PageState \<times> Request list" where
  "handleSaveCheckpoint seen newId now posted newSessionId =
     (let checkpoint = checkpointToSave seen newId now
      in case posted of
           Rejected \<Rightarrow> (seen, [CheckpointPOST checkpoint])
         | Resolved _ \<Rightarrow>
             (seen\<lparr>showCheckpointModal := False,
                   checkpointTask := [],
                   messages := [],
                   tokenUsage := initialTokenUsage,
                   sessionId := newSessionId\<rparr>,
              [CheckpointPOST checkpoint]))"

text \<open>
  The save against the route: the page posts its checkpoint, the route answers, and the
  handler goes on with that answer.
\<close>

definition saveThroughRoute ::
  "(PageTokenUsage, unit) Database \<Rightarrow> PageState \<Rightarrow> jsstring \<Rightarrow> jsstring \<Rightarrow> jsstring \<Rightarrow> jsstring
     \<Rightarrow> (PageTokenUsage, unit) Database \<times> nat \<times> PageState" where
  "saveThroughRoute db seen newId now dbNow newSessionId =
     (let (db', response) = POST db (checkpointToSave seen newId now) dbNow;
          (cur, sent) = handleSaveCheckpoint seen newId now
                          (Resolved (statusCode response)) newSessionId
      in (db', statusCode response, cur))"

subsection \<open>Notions used to state the properties\<close>

text \<open>
  The deltas of a message list, turn by turn, in the specification's words for the inputs
  of the two accounting paths (this is not a function of the source): a message counts
  with its token count if present, else with the estimate of its content, on the input
  side when the user wrote it and on the output side otherwise.
\<close>

definition countOrEstimate :: "Message \<Rightarrow> int" where
  "countOrEstimate msg =
     (case tokens msg of None \<Rightarrow> estimateTokens (content msg) | Some n \<Rightarrow> n)"

definition turnDelta :: "Message \<Rightarrow> int \<times> int" where
  "turnDelta msg =
     (if role msg = User then (countOrEstimate msg, 0) else (0, countOrEstimate msg))"

definition accumulate :: "PageTokenUsage \<Rightarrow> (int \<times> int) list \<Rightarrow> PageTokenUsage" where
  "accumulate = foldl (\<lambda>u (i, out). updateTokenUsage u i out)"

text \<open>Severity of a session status, to say that a status does not regress.\<close>

fun severity :: "SessionStatus \<Rightarrow> nat" where
  "severity SessionActive = 0"
| "severity SessionWarning = 1"
| "severity SessionCritical = 2"

text \<open>The rows of a session that are active.\<close>

definition activeRows :: "('u, 'j) Database \<Rightarrow> jsstring \<Rightarrow> ('u, 'j) Row list" where
  "activeRows db sid =
     filter (\<lambda>r. session_id r = sid \<and> row_status r = Active) (session_checkpoints db)"

text \<open>The model identifiers the limit table lists by name.\<close>

definition knownModels :: "jsstring list" where
  "knownModels =
     [js ''claude-sonnet-4-20250514'', js ''claude-opus-4-5-20251101'',
      js ''claude-3-5-sonnet-20241022'']"

text \<open>A user message of four characters that carries no count of its own.\<close>

definition fourChars :: Message where
  "fourChars = \<lparr> msg_id = js ''m1'', role = User, content = js ''abcd'',
                  timestamp = js ''t1'', tokens = None \<rparr>"

text \<open>An assistant message of eight characters whose count is present and zero.\<close>

definition zeroCounted :: Message where
  "zeroCounted = \<lparr> msg_id = js ''m2'', role = Assistant, content = js ''abcdefgh'',
                    timestamp = js ''t2'', tokens = Some 0 \<rparr>"

text \<open>
  A page in the middle of a conversation of session \<open>s1\<close>, and the same conversation
  under session \<open>s0\<close>.
\<close>

definition busyPage :: PageState where
  "busyPage = \<lparr> messages = [fourChars, zeroCounted], input = [], isLoading = False,
                 sessionId = js ''s1'',
                 tokenUsage = updateTokenUsage initialTokenUsage 1 2,
                 showCheckpointModal = True, activeCheckpoint = None,
                 checkpointTask = [], showResumePrompt = False \<rparr>"

definition otherPage :: PageState where
  "otherPage = busyPage\<lparr>sessionId := js ''s0''\<rparr>"

definition emptyDatabase :: "(PageTokenUsage, unit) Database" where
  "emptyDatabase = \<lparr> session_checkpoints = [], activities = [] \<rparr>"

text \<open>A store that holds one checkpoint, with id \<open>c1\<close>, saved by session \<open>s0\<close>.\<close>

definition storeWithC1 :: "(PageTokenUsage, unit) Database" where
  "storeWithC1 =
     fst (POST emptyDatabase (checkpointToSave otherPage (js ''c1'') (js ''t0'')) (js ''t0''))"

text \<open>The page as it is created, before \<^verbatim>\<open>initSession\<close> has run.\<close>

definition initialPage :: PageState where
  "initialPage = \<lparr> messages = [], input = [], isLoading = False,
                    sessionId = [], tokenUsage = initialTokenUsage,
                    showCheckpointModal = False, activeCheckpoint = None,
                    checkpointTask = [], showResumePrompt = False \<rparr>"

text \<open>The row of \<open>storeWithC1\<close>, and a page started against that store.\<close>

definition rowC1 :: "(PageTokenUsage, unit) Row" where
  "rowC1 = insertedRow (checkpointToSave otherPage (js ''c1'') (js ''t0'')) (js ''t0'')"

definition offeredPage :: PageState where
  "offeredPage = startThroughRoute (\<lambda>a b. False) storeWithC1 initialPage (js ''s9'')"

text \<open>A library checkpoint whose only message is short.\<close>

definition shortCheckpoint :: "(TokenUsage, unit) SessionCheckpoint" where
  "shortCheckpoint =
     \<lparr> cp_id = js ''c1'', cp_sessionId = js ''s1'', cp_timestamp = js ''t1'',
       cp_taskDescription = js ''Fix billing bug'',
       cp_completedSteps = [js ''Read logs''],
       cp_currentStep = js ''Debugging invoice calc'',
       cp_nextSteps = [js ''Write test'', js ''Deploy''],
       cp_messages = [fourChars],
       cp_tokenUsage = calculateTokenUsage [fourChars] (js ''default''),
       cp_contextVariables = [],
       cp_status = Active,
       cp_continuationPrompt = [] \<rparr>"


section \<open>Properties\<close>

subsection \<open>Auxiliary facts about the counters\<close>

lemma estimateTokens_div: "estimateTokens t = (int (length t) + 3) div 4"
  unfolding estimateTokens_def by linarith

lemma countMessages_acc:
  "countMessages ms (a, b) = (a + fst (countMessages ms (0, 0)), b + snd (countMessages ms (0, 0)))"
proof (induction ms arbitrary: a b)
  case Nil
  then show ?case by simp
next
  case (Cons m ms)
  show ?case
    using Cons.IH [of "a + messageTokens m" b] Cons.IH [of a "b + messageTokens m"]
          Cons.IH [of "messageTokens m" 0] Cons.IH [of 0 "messageTokens m"]
    by (simp add: algebra_simps)
qed

lemma countMessages_append:
  "countMessages (xs @ ys) acc = countMessages ys (countMessages xs acc)"
  by (induction xs acc rule: countMessages.induct) simp_all

lemma calculateTokenUsage_fields:
  "inputTokens (calculateTokenUsage ms mdl) = fst (countMessages ms (0, 0))"
  "outputTokens (calculateTokenUsage ms mdl) = snd (countMessages ms (0, 0))"
  "totalTokens (calculateTokenUsage ms mdl) =
     fst (countMessages ms (0, 0)) + snd (countMessages ms (0, 0))"
  "percentUsed (calculateTokenUsage ms mdl) =
     js_div (fst (countMessages ms (0, 0)) + snd (countMessages ms (0, 0)))
            (js_or (MODEL_LIMITS mdl) (MODEL_LIMITS (js ''default'')))"
  "model (calculateTokenUsage ms mdl) = mdl"
  by (simp_all add: calculateTokenUsage_def Let_def split: prod.splits)

lemma updateTokenUsage_fields:
  "inputTokens (updateTokenUsage u a b) = inputTokens u + a"
  "outputTokens (updateTokenUsage u a b) = outputTokens u + b"
  "totalTokens (updateTokenUsage u a b) = totalTokens u + a + b"
  "percentUsed (updateTokenUsage u a b) = Finite (of_int (totalTokens u + a + b) / 180000)"
  by (simp_all add: updateTokenUsage_def Let_def MODEL_LIMIT_def)

lemma accumulate_snoc:
  "accumulate u (ds @ [(a, b)]) = updateTokenUsage (accumulate u ds) a b"
  by (simp add: accumulate_def)

lemma countOrEstimate_code:
  "tokens m \<noteq> Some 0 \<Longrightarrow> countOrEstimate m = messageTokens m"
  by (simp add: countOrEstimate_def messageTokens_def split: option.splits)

lemma accumulate_counts:
  assumes "\<forall>m \<in> set ms. tokens m \<noteq> Some 0"
  shows "inputTokens (accumulate u (map turnDelta ms)) = inputTokens u + fst (countMessages ms (0, 0)) \<and>
   outputTokens (accumulate u (map turnDelta ms)) = outputTokens u + snd (countMessages ms (0, 0)) \<and>
   totalTokens (accumulate u (map turnDelta ms)) =
     totalTokens u + fst (countMessages ms (0, 0)) + snd (countMessages ms (0, 0))"
  using assms
proof (induction ms arbitrary: u)
  case Nil
  show ?case by (simp add: accumulate_def)
next
  case (Cons m ms)
  have step: "accumulate u (map turnDelta (m # ms)) =
      accumulate (updateTokenUsage u (fst (turnDelta m)) (snd (turnDelta m))) (map turnDelta ms)"
    by (simp add: accumulate_def split: prod.splits)
  have cnt: "countOrEstimate m = messageTokens m"
    using Cons.prems by (simp add: countOrEstimate_code)
  have rest: "\<forall>m \<in> set ms. tokens m \<noteq> Some 0"
    using Cons.prems by simp
  show ?case
  proof (cases "role m = User")
    case True
    then have td: "turnDelta m = (messageTokens m, 0)" by (simp add: turnDelta_def cnt)
    from True show ?thesis
      unfolding step td
      using Cons.IH [OF rest, of "updateTokenUsage u (messageTokens m) 0"]
            countMessages_acc [of ms "messageTokens m" 0]
      by (simp add: updateTokenUsage_fields)
  next
    case False
    then have td: "turnDelta m = (0, messageTokens m)" by (simp add: turnDelta_def cnt)
    from False show ?thesis
      unfolding step td
      using Cons.IH [OF rest, of "updateTokenUsage u 0 (messageTokens m)"]
            countMessages_acc [of ms 0 "messageTokens m"]
      by (simp add: updateTokenUsage_fields)
  qed
qed

lemma accumulate_percent:
  "ds \<noteq> [] \<Longrightarrow> percentUsed (accumulate u ds) = Finite (of_int (totalTokens (accumulate u ds)) / 180000)"
proof (induction ds rule: rev_induct)
  case Nil
  then show ?case by simp
next
  case (snoc d ds)
  obtain a b where d: "d = (a, b)" by (cases d)
  show ?case unfolding d accumulate_snoc by (simp add: updateTokenUsage_fields)
qed

lemma accumulate_initial_percent:
  "percentUsed (accumulate initialTokenUsage ds) =
     Finite (of_int (totalTokens (accumulate initialTokenUsage ds)) / 180000)"
proof (cases "ds = []")
  case True
  then show ?thesis by (simp add: accumulate_def initialTokenUsage_def)
next
  case False
  then show ?thesis by (rule accumulate_percent)
qed

lemma limit_known: "mdl \<in> set knownModels \<Longrightarrow> js_or (MODEL_LIMITS mdl) (MODEL_LIMITS (js ''default'')) = JSNumber 180000"
  by (auto simp: knownModels_def MODEL_LIMITS_def js_or_def)

lemma countMessages_Cons:
  "fst (countMessages (m # ms) (0, 0)) =
     (if role m = User then messageTokens m else 0) + fst (countMessages ms (0, 0))"
  "snd (countMessages (m # ms) (0, 0)) =
     (if role m = User then 0 else messageTokens m) + snd (countMessages ms (0, 0))"
  using countMessages_acc [of ms "messageTokens m" 0] countMessages_acc [of ms 0 "messageTokens m"]
  by simp_all

lemma countMessages_insert:
  "fst (countMessages (pre @ m # post) (0, 0)) =
     fst (countMessages (pre @ post) (0, 0)) + (if role m = User then messageTokens m else 0)"
  "snd (countMessages (pre @ m # post) (0, 0)) =
     snd (countMessages (pre @ post) (0, 0)) + (if role m = User then 0 else messageTokens m)"
proof -
  obtain a b where ab: "countMessages pre (0, 0) = (a, b)" by (cases "countMessages pre (0, 0)")
  note acc = countMessages_acc [of post a b] countMessages_acc [of post "a + messageTokens m" b]
             countMessages_acc [of post a "b + messageTokens m"]
  show "fst (countMessages (pre @ m # post) (0, 0)) =
     fst (countMessages (pre @ post) (0, 0)) + (if role m = User then messageTokens m else 0)"
    using acc by (simp add: countMessages_append ab)
  show "snd (countMessages (pre @ m # post) (0, 0)) =
     snd (countMessages (pre @ post) (0, 0)) + (if role m = User then 0 else messageTokens m)"
    using acc by (simp add: countMessages_append ab)
qed

lemma accumulate_invariant:
  "totalTokens u = inputTokens u + outputTokens u \<Longrightarrow>
   totalTokens (accumulate u ds) = inputTokens (accumulate u ds) + outputTokens (accumulate u ds)"
proof (induction ds rule: rev_induct)
  case Nil
  then show ?case by (simp add: accumulate_def)
next
  case (snoc d ds)
  obtain a b where d: "d = (a, b)" by (cases d)
  from snoc show ?case unfolding d accumulate_snoc by (simp add: updateTokenUsage_fields)
qed

lemma MODEL_LIMITS_default: "MODEL_LIMITS (js ''default'') = JSNumber 150000"
  by (simp add: MODEL_LIMITS_def js_def)

lemma limit_other:
  assumes "mdl \<notin> set knownModels" and "mdl \<notin> set Object_prototype_keys"
  shows "js_or (MODEL_LIMITS mdl) (MODEL_LIMITS (js ''default'')) = JSNumber 150000"
proof -
  have "MODEL_LIMITS mdl = JSNumber 150000 \<or> MODEL_LIMITS mdl = JSUndefined"
    using assms by (auto simp: MODEL_LIMITS_def knownModels_def)
  then show ?thesis
    by (auto simp: js_or_def MODEL_LIMITS_default)
qed

lemma calculateTokenUsage_percentUsed:
  "(mdl \<in> set knownModels \<longrightarrow>
      percentUsed (calculateTokenUsage ms mdl) =
        Finite (of_int (totalTokens (calculateTokenUsage ms mdl)) / 180000))
   \<and> (mdl \<notin> set knownModels \<and> mdl \<notin> set Object_prototype_keys \<longrightarrow>
      percentUsed (calculateTokenUsage ms mdl) =
        Finite (of_int (totalTokens (calculateTokenUsage ms mdl)) / 150000))"
  by (simp add: calculateTokenUsage_fields limit_known limit_other)

subsection \<open>Token estimation\<close>

text \<open>
  C8. For every text, \<open>estimateTokens\<close> is the ceiling of a quarter of its length: the
  least integer whose fourfold reaches the length, \<open>(length + 3) div 4\<close>. The empty text
  gives 0, and the result depends on the length alone (any text of the same length, here
  one made of a single repeated code unit, gives the same count).
\<close>

theorem estimateTokens_ceiling:
  "estimateTokens t = \<lceil>(of_nat (length t) :: rat) / 4\<rceil>
   \<and> estimateTokens t = (int (length t) + 3) div 4
   \<and> int (length t) \<le> 4 * estimateTokens t
   \<and> 4 * estimateTokens t < int (length t) + 4
   \<and> estimateTokens [] = 0
   \<and> estimateTokens t = estimateTokens (replicate (length t) c)"
proof -
  have d: "\<And>s. estimateTokens s = (int (length s) + 3) div 4"
    by (rule estimateTokens_div)
  have "estimateTokens t = \<lceil>(of_nat (length t) :: rat) / 4\<rceil>"
    by (simp add: estimateTokens_def)
  moreover have "int (length t) \<le> 4 * estimateTokens t"
    unfolding d by presburger
  moreover have "4 * estimateTokens t < int (length t) + 4"
    unfolding d by presburger
  moreover have "estimateTokens [] = 0"
    by (simp add: d)
  moreover have "estimateTokens t = estimateTokens (replicate (length t) c)"
    by (simp add: d)
  ultimately show ?thesis
    using d by blast
qed

text \<open>
  C10. In \<open>calculateTokenUsage\<close>, a message contributes its count when the count is
  present and not zero, and the estimate of its content when the count is absent or is
  zero: a count of zero is treated exactly like an absent one. The contribution goes to
  the input side for a user message and to the output side otherwise.
\<close>

theorem zero_tokens_is_estimated:
  "inputTokens (calculateTokenUsage (pre @ msg # post) mdl) =
     inputTokens (calculateTokenUsage (pre @ post) mdl)
     + (if role msg = User
        then (case tokens msg of
                None \<Rightarrow> estimateTokens (content msg)
              | Some n \<Rightarrow> if n = 0 then estimateTokens (content msg) else n)
        else 0)
   \<and> outputTokens (calculateTokenUsage (pre @ msg # post) mdl) =
       outputTokens (calculateTokenUsage (pre @ post) mdl)
       + (if role msg = User then 0
          else (case tokens msg of
                  None \<Rightarrow> estimateTokens (content msg)
                | Some n \<Rightarrow> if n = 0 then estimateTokens (content msg) else n))
   \<and> totalTokens (calculateTokenUsage (pre @ msg # post) mdl) =
       totalTokens (calculateTokenUsage (pre @ post) mdl)
       + (case tokens msg of
            None \<Rightarrow> estimateTokens (content msg)
          | Some n \<Rightarrow> if n = 0 then estimateTokens (content msg) else n)"
proof -
  have mt: "messageTokens msg =
      (case tokens msg of
         None \<Rightarrow> estimateTokens (content msg)
       | Some n \<Rightarrow> if n = 0 then estimateTokens (content msg) else n)"
    by (simp add: messageTokens_def split: option.splits)
  show ?thesis
    unfolding calculateTokenUsage_fields countMessages_insert mt [symmetric] by simp
qed

theorem zero_tokens_is_estimated_witness:
  "tokens zeroCounted = Some 0
   \<and> outputTokens (calculateTokenUsage [zeroCounted] (js ''default'')) = 2
   \<and> totalTokens (calculateTokenUsage [zeroCounted] (js ''default'')) = 2"
  using zero_tokens_is_estimated [of "[]" zeroCounted "[]" "js ''default''"]
  by (simp add: calculateTokenUsage_fields estimateTokens_div zeroCounted_def js_def)

subsection \<open>The two accounting paths\<close>

text \<open>
  C4. Every usage the system produces has \<open>totalTokens = inputTokens + outputTokens\<close>:
  the recomputation from any message list and model; the incremental update of a prior
  usage that has the property, by any deltas; and so every usage reached from the initial
  one by any sequence of updates.
\<close>

theorem total_is_input_plus_output:
  "totalTokens (calculateTokenUsage ms mdl) =
     inputTokens (calculateTokenUsage ms mdl) + outputTokens (calculateTokenUsage ms mdl)
   \<and> (totalTokens prev = inputTokens prev + outputTokens prev \<longrightarrow>
        totalTokens (updateTokenUsage prev a b) =
          inputTokens (updateTokenUsage prev a b) + outputTokens (updateTokenUsage prev a b))
   \<and> totalTokens (accumulate initialTokenUsage ds) =
       inputTokens (accumulate initialTokenUsage ds) + outputTokens (accumulate initialTokenUsage ds)"
proof -
  have "totalTokens initialTokenUsage = inputTokens initialTokenUsage + outputTokens initialTokenUsage"
    by (simp add: initialTokenUsage_def)
  then have "totalTokens (accumulate initialTokenUsage ds) =
       inputTokens (accumulate initialTokenUsage ds) + outputTokens (accumulate initialTokenUsage ds)"
    by (rule accumulate_invariant)
  then show ?thesis
    by (simp add: calculateTokenUsage_fields updateTokenUsage_fields)
qed

theorem total_is_input_plus_output_witness:
  "totalTokens initialTokenUsage = inputTokens initialTokenUsage + outputTokens initialTokenUsage
   \<and> totalTokens (updateTokenUsage initialTokenUsage 40 200) = 240
   \<and> inputTokens (updateTokenUsage initialTokenUsage 40 200) = 40
   \<and> outputTokens (updateTokenUsage initialTokenUsage 40 200) = 200"
  using total_is_input_plus_output [of "[]" "[]" initialTokenUsage 40 200 "[]"]
  by (simp add: initialTokenUsage_def updateTokenUsage_fields)

text \<open>
  C1, as the code has it. For a message list in which no message carries a token count
  of zero, accumulating its deltas turn by turn from the initial usage gives the same
  \<open>inputTokens\<close>, \<open>outputTokens\<close> and \<open>totalTokens\<close> as recomputing from the whole list,
  for every model; and the same usage altogether, \<open>percentUsed\<close> included, when the model
  is one of the three the limit table names, whose limit is the page's fixed 180000.
\<close>

theorem incremental_agrees_with_recompute:
  assumes "\<forall>m \<in> set ms. tokens m \<noteq> Some 0"
  shows "inputTokens (accumulate initialTokenUsage (map turnDelta ms)) =
           inputTokens (calculateTokenUsage ms mdl)
       \<and> outputTokens (accumulate initialTokenUsage (map turnDelta ms)) =
           outputTokens (calculateTokenUsage ms mdl)
       \<and> totalTokens (accumulate initialTokenUsage (map turnDelta ms)) =
           totalTokens (calculateTokenUsage ms mdl)
       \<and> (mdl \<in> set knownModels \<longrightarrow>
            accumulate initialTokenUsage (map turnDelta ms) =
              PageTokenUsage.truncate (calculateTokenUsage ms mdl))"
proof -
  let ?a = "accumulate initialTokenUsage (map turnDelta ms)"
  let ?r = "calculateTokenUsage ms mdl"
  have i: "inputTokens ?a = inputTokens ?r" and o: "outputTokens ?a = outputTokens ?r"
    and t: "totalTokens ?a = totalTokens ?r"
    using accumulate_counts [OF assms, of initialTokenUsage]
    by (simp_all add: calculateTokenUsage_fields initialTokenUsage_def)
  have p: "percentUsed ?a = percentUsed ?r" if "mdl \<in> set knownModels"
    using limit_known [OF that] t
    by (simp add: accumulate_initial_percent calculateTokenUsage_fields)
  have "?a = PageTokenUsage.truncate ?r" if "mdl \<in> set knownModels"
    using i o t p [OF that] by (simp add: PageTokenUsage.truncate_def)
  with i o t show ?thesis by blast
qed

theorem incremental_agrees_with_recompute_witness:
  "tokens fourChars = None
   \<and> js ''claude-sonnet-4-20250514'' \<in> set knownModels
   \<and> accumulate initialTokenUsage (map turnDelta [fourChars]) =
       PageTokenUsage.truncate (calculateTokenUsage [fourChars] (js ''claude-sonnet-4-20250514''))"
proof -
  have h: "\<forall>m \<in> set [fourChars]. tokens m \<noteq> Some 0"
    by (simp add: fourChars_def)
  have k: "js ''claude-sonnet-4-20250514'' \<in> set knownModels"
    by (simp add: knownModels_def)
  have n: "tokens fourChars = None"
    by (simp add: fourChars_def)
  from incremental_agrees_with_recompute [OF h, of "js ''claude-sonnet-4-20250514''"] n k
  show ?thesis by blast
qed

text \<open>
  C1 as stated fails, in two ways. For the unlisted model \<open>gpt-4\<close> and the single message
  \<open>fourChars\<close> (one token), the incremental path divides by 180000 and the recomputation by
  the table's default 150000. And for the single message \<open>zeroCounted\<close>, whose count is
  present and zero, the delta is 0 while the recomputation estimates its eight characters
  as 2 tokens, whatever the model.
\<close>

theorem incremental_differs_for_unlisted_model:
  "percentUsed (accumulate initialTokenUsage (map turnDelta [fourChars])) = Finite (1 / 180000)
   \<and> percentUsed (calculateTokenUsage [fourChars] (js ''gpt-4'')) = Finite (1 / 150000)
   \<and> accumulate initialTokenUsage (map turnDelta [fourChars])
       \<noteq> PageTokenUsage.truncate (calculateTokenUsage [fourChars] (js ''gpt-4''))
   \<and> outputTokens (accumulate initialTokenUsage (map turnDelta [zeroCounted])) = 0
   \<and> outputTokens (calculateTokenUsage [zeroCounted] (js ''claude-sonnet-4-20250514'')) = 2"
proof -
  have mt: "messageTokens fourChars = 1" "countOrEstimate fourChars = 1"
    by (simp_all add: messageTokens_def countOrEstimate_def fourChars_def estimateTokens_div js_def)
  have r: "role fourChars = User"
    by (simp add: fourChars_def)
  have a: "percentUsed (accumulate initialTokenUsage (map turnDelta [fourChars])) = Finite (1 / 180000)"
    by (simp add: accumulate_def turnDelta_def r mt updateTokenUsage_fields initialTokenUsage_def)
  have lim: "js_or (MODEL_LIMITS (js ''gpt-4'')) (MODEL_LIMITS (js ''default'')) = JSNumber 150000"
    by (simp add: MODEL_LIMITS_def js_or_def Object_prototype_keys_def js_def)
  have b: "percentUsed (calculateTokenUsage [fourChars] (js ''gpt-4'')) = Finite (1 / 150000)"
    by (simp add: calculateTokenUsage_fields lim r mt)
  have "percentUsed (PageTokenUsage.truncate (calculateTokenUsage [fourChars] (js ''gpt-4'')))
          = Finite (1 / 150000)"
    using b by (simp add: PageTokenUsage.truncate_def)
  with a have c: "accumulate initialTokenUsage (map turnDelta [fourChars])
       \<noteq> PageTokenUsage.truncate (calculateTokenUsage [fourChars] (js ''gpt-4''))"
    by auto
  have z: "messageTokens zeroCounted = 2" "countOrEstimate zeroCounted = 0"
          "role zeroCounted = Assistant"
    by (simp_all add: messageTokens_def countOrEstimate_def zeroCounted_def estimateTokens_div js_def)
  have d: "outputTokens (accumulate initialTokenUsage (map turnDelta [zeroCounted])) = 0"
    by (simp add: accumulate_def turnDelta_def z updateTokenUsage_fields initialTokenUsage_def)
  have e: "outputTokens (calculateTokenUsage [zeroCounted] (js ''claude-sonnet-4-20250514'')) = 2"
    by (simp add: calculateTokenUsage_fields z)
  from a b c d e show ?thesis by blast
qed

subsection \<open>Thresholds\<close>

text \<open>
  C2. The status is critical exactly when \<open>percentUsed \<ge> 0.85\<close>, warning exactly when
  \<open>0.70 \<le> percentUsed\<close> and not \<open>percentUsed \<ge> 0.85\<close>, and active otherwise;
  \<open>needsCheckpoint\<close> is \<open>percentUsed \<ge> 0.70\<close> and \<open>isCritical\<close> is
  \<open>percentUsed \<ge> 0.85\<close>, both inclusive. At 0.69, 0.70, 0.84, 0.85 and 0.86 the statuses
  are active, warning, warning, critical, critical, and a usage whose \<open>percentUsed\<close> is at
  least another's never has a milder status.
\<close>

theorem status_thresholds:
  "(getSessionStatus u = SessionCritical) = js_ge (percentUsed u) (Finite (85 / 100))
   \<and> (getSessionStatus u = SessionWarning) =
       (js_ge (percentUsed u) (Finite (70 / 100)) \<and> \<not> js_ge (percentUsed u) (Finite (85 / 100)))
   \<and> (getSessionStatus u = SessionActive) = (\<not> js_ge (percentUsed u) (Finite (70 / 100)))
   \<and> needsCheckpoint u = js_ge (percentUsed u) (Finite (70 / 100))
   \<and> isCritical u = js_ge (percentUsed u) (Finite (85 / 100))
   \<and> map (\<lambda>p. getSessionStatus (u\<lparr>percentUsed := Finite p\<rparr>))
         [69 / 100, 70 / 100, 84 / 100, 85 / 100, 86 / 100]
       = [SessionActive, SessionWarning, SessionWarning, SessionCritical, SessionCritical]
   \<and> (js_ge (percentUsed v) (percentUsed u) \<longrightarrow>
        severity (getSessionStatus u) \<le> severity (getSessionStatus v))"
proof -
  have mono: "severity (getSessionStatus u) \<le> severity (getSessionStatus v)"
    if "js_ge (percentUsed v) (percentUsed u)"
    using that
    by (cases "percentUsed v"; cases "percentUsed u")
       (auto simp: getSessionStatus_def WARNING_THRESHOLD_def CHECKPOINT_THRESHOLD_def)
  have ge: "js_ge x (Finite (17 / 20)) \<Longrightarrow> js_ge x (Finite (7 / 10))" for x
    by (cases x) auto
  show ?thesis
    using mono ge [of "percentUsed u"]
    by (auto simp: getSessionStatus_def needsCheckpoint_def isCritical_def
                   WARNING_THRESHOLD_def CHECKPOINT_THRESHOLD_def)
qed

theorem status_thresholds_witness:
  "js_ge (percentUsed (updateTokenUsage initialTokenUsage 0 153000))
         (percentUsed (updateTokenUsage initialTokenUsage 126000 0))
   \<and> severity (getSessionStatus (updateTokenUsage initialTokenUsage 126000 0))
       \<le> severity (getSessionStatus (updateTokenUsage initialTokenUsage 0 153000))
   \<and> getSessionStatus (updateTokenUsage initialTokenUsage 126000 0) = SessionWarning"
proof -
  let ?u = "updateTokenUsage initialTokenUsage 126000 0"
  let ?v = "updateTokenUsage initialTokenUsage 0 153000"
  have h: "js_ge (percentUsed ?v) (percentUsed ?u)"
    by (simp add: updateTokenUsage_fields initialTokenUsage_def)
  have w: "js_ge (percentUsed ?u) (Finite (70 / 100)) \<and> \<not> js_ge (percentUsed ?u) (Finite (85 / 100))"
    by (simp add: updateTokenUsage_fields initialTokenUsage_def)
  from status_thresholds [of ?u ?v] h w show ?thesis by blast
qed

subsection \<open>The limit table\<close>

text \<open>
  C7. For the model identifier \<open>constructor\<close>, which the table does not list, the lookup
  finds the member every object inherits, the fallback to the default entry is not taken,
  and \<open>percentUsed\<close> is NaN rather than \<open>totalTokens / 150000\<close>.
\<close>

theorem percentUsed_inherited_key:
  "js ''constructor'' \<notin> set knownModels
   \<and> totalTokens (calculateTokenUsage [fourChars] (js ''constructor'')) = 1
   \<and> percentUsed (calculateTokenUsage [fourChars] (js ''constructor'')) = NaN
   \<and> percentUsed (calculateTokenUsage [fourChars] (js ''constructor'')) \<noteq> Finite (1 / 150000)"
proof -
  have mt: "messageTokens fourChars = 1"
    by (simp add: messageTokens_def fourChars_def estimateTokens_div js_def)
  have r: "role fourChars = User"
    by (simp add: fourChars_def)
  have k: "js ''constructor'' \<notin> set knownModels"
    by (simp add: knownModels_def js_def)
  have lim: "js_or (MODEL_LIMITS (js ''constructor'')) (MODEL_LIMITS (js ''default'')) = JSObject"
    by (simp add: MODEL_LIMITS_def js_or_def Object_prototype_keys_def js_def)
  show ?thesis
    using k by (simp add: calculateTokenUsage_fields lim r mt)
qed

subsection \<open>The checkpoint store\<close>

lemma supersede_id: "row_id (supersede sid now r) = row_id r"
  by (simp add: supersede_def)

lemma supersede_not_active:
  "\<not> (session_id (supersede sid now r) = sid \<and> row_status (supersede sid now r) = Active)"
  by (auto simp: supersede_def)

lemma no_active_after_supersede:
  "filter (\<lambda>r. session_id r = sid \<and> row_status r = Active) (map (supersede sid now) rows) = []"
  using supersede_not_active [of sid now] by (induction rows) auto

lemma ids_after_supersede: "map row_id (map (supersede sid now) rows) = map row_id rows"
  by (simp add: supersede_id)

lemma POST_Json:
  assumes "POST db c now = (db', Json r)"
  shows "session_checkpoints db' = map (supersede (cp_sessionId c) now) (session_checkpoints db) @ [r]"
    and "r = insertedRow c now"
    and "cp_id c \<notin> set (map row_id (session_checkpoints db))"
proof -
  have free: "cp_id c \<notin> set (map row_id (map (supersede (cp_sessionId c) now) (session_checkpoints db)))"
    using assms by (auto simp: POST_def Let_def split: if_splits)
  then show "cp_id c \<notin> set (map row_id (session_checkpoints db))"
    unfolding ids_after_supersede .
  from assms free show "r = insertedRow c now"
    by (simp add: POST_def Let_def split: if_splits)
  from assms free show "session_checkpoints db' =
      map (supersede (cp_sessionId c) now) (session_checkpoints db) @ [r]"
    by (auto simp: POST_def Let_def split: if_splits)
qed

lemma insertedRow_fields:
  "row_id (insertedRow c now) = cp_id c"
  "session_id (insertedRow c now) = cp_sessionId c"
  "row_status (insertedRow c now) = Active"
  by (simp_all add: insertedRow_def)

lemma activeRows_after_POST:
  assumes "POST db c now = (db', Json r)"
  shows "activeRows db' (cp_sessionId c) = [r]"
  using POST_Json(1,2) [OF assms]
  by (simp add: activeRows_def no_active_after_supersede insertedRow_fields)

text \<open>
  C3. A save that the store accepts leaves exactly one active row for its session, the
  new one. After two accepted saves for the same session the table is the old rows, with
  every active row of the session superseded, followed by the first save's row, now
  superseded, and the second save's row, which is the session's only active row.
\<close>

theorem one_active_checkpoint_per_session:
  assumes first: "POST db c1 t1 = (db1, Json r1)"
      and second: "POST db1 c2 t2 = (db2, Json r2)"
      and same: "cp_sessionId c2 = cp_sessionId c1"
  shows "activeRows db1 (cp_sessionId c1) = [r1]
       \<and> activeRows db2 (cp_sessionId c1) = [r2]
       \<and> row_id r1 = cp_id c1 \<and> row_id r2 = cp_id c2 \<and> row_id r1 \<noteq> row_id r2
       \<and> filter (\<lambda>r. row_id r = cp_id c1) (session_checkpoints db2) =
           [r1\<lparr>row_status := Superseded, updated_at := t2\<rparr>]
       \<and> session_checkpoints db2 =
           map (supersede (cp_sessionId c1) t2) (map (supersede (cp_sessionId c1) t1) (session_checkpoints db))
           @ [r1\<lparr>row_status := Superseded, updated_at := t2\<rparr>, r2]"
proof -
  note p1 = POST_Json [OF first] and p2 = POST_Json [OF second]
  have a1: "activeRows db1 (cp_sessionId c1) = [r1]"
    by (rule activeRows_after_POST [OF first])
  have a2: "activeRows db2 (cp_sessionId c1) = [r2]"
    using activeRows_after_POST [OF second] same by simp
  have ids: "row_id r1 = cp_id c1" "row_id r2 = cp_id c2"
    by (simp_all add: p1(2) p2(2) insertedRow_fields)
  have ne: "row_id r1 \<noteq> row_id r2"
    using p2(3) p1(1) ids by auto
  have s1: "supersede (cp_sessionId c1) t2 r1 = r1\<lparr>row_status := Superseded, updated_at := t2\<rparr>"
    by (simp add: supersede_def p1(2) insertedRow_fields)
  have "session_checkpoints db2 =
           map (supersede (cp_sessionId c1) t2) (map (supersede (cp_sessionId c1) t1) (session_checkpoints db))
           @ [r1\<lparr>row_status := Superseded, updated_at := t2\<rparr>, r2]"
    using p2(1) p1(1) same s1 by simp
  then have rows: "session_checkpoints db2 =
           map (supersede (cp_sessionId c1) t2) (map (supersede (cp_sessionId c1) t1) (session_checkpoints db))
           @ [r1\<lparr>row_status := Superseded, updated_at := t2\<rparr>, r2]" .
  have old: "filter (\<lambda>r. row_id r = cp_id c1)
               (map (supersede (cp_sessionId c1) t2) (map (supersede (cp_sessionId c1) t1) (session_checkpoints db))) = []"
    using p1(3) by (force simp: filter_empty_conv supersede_id)
  have byid: "filter (\<lambda>r. row_id r = cp_id c1) (session_checkpoints db2) =
           [r1\<lparr>row_status := Superseded, updated_at := t2\<rparr>]"
    unfolding rows using old ids ne by simp
  from a1 a2 ne ids byid rows show ?thesis by simp
qed

lemma checkpointToSave_fields:
  "cp_id (checkpointToSave seen newId now) = newId"
  "cp_sessionId (checkpointToSave seen newId now) = sessionId seen"
  "cp_messages (checkpointToSave seen newId now) = messages seen"
  "cp_tokenUsage (checkpointToSave seen newId now) = tokenUsage seen"
  "cp_status (checkpointToSave seen newId now) = Active"
  by (simp_all add: checkpointToSave_def)

lemma c2_not_c1: "js ''c2'' \<noteq> js ''c1''"
  by (simp add: js_def)

theorem one_active_checkpoint_per_session_witness:
  "POST emptyDatabase (checkpointToSave busyPage (js ''c1'') (js ''t1'')) (js ''t1'')
     = (fst (POST emptyDatabase (checkpointToSave busyPage (js ''c1'') (js ''t1'')) (js ''t1'')),
        Json (insertedRow (checkpointToSave busyPage (js ''c1'') (js ''t1'')) (js ''t1'')))
   \<and> POST (fst (POST emptyDatabase (checkpointToSave busyPage (js ''c1'') (js ''t1'')) (js ''t1'')))
          (checkpointToSave busyPage (js ''c2'') (js ''t2'')) (js ''t2'')
     = (fst (POST (fst (POST emptyDatabase (checkpointToSave busyPage (js ''c1'') (js ''t1'')) (js ''t1'')))
                  (checkpointToSave busyPage (js ''c2'') (js ''t2'')) (js ''t2'')),
        Json (insertedRow (checkpointToSave busyPage (js ''c2'') (js ''t2'')) (js ''t2'')))
   \<and> cp_sessionId (checkpointToSave busyPage (js ''c2'') (js ''t2''))
       = cp_sessionId (checkpointToSave busyPage (js ''c1'') (js ''t1''))
   \<and> activeRows (fst (POST (fst (POST emptyDatabase (checkpointToSave busyPage (js ''c1'') (js ''t1'')) (js ''t1'')))
                  (checkpointToSave busyPage (js ''c2'') (js ''t2'')) (js ''t2'')))
          (js ''s1'')
       = [insertedRow (checkpointToSave busyPage (js ''c2'') (js ''t2'')) (js ''t2'')]"
proof -
  let ?c1 = "checkpointToSave busyPage (js ''c1'') (js ''t1'')"
  let ?c2 = "checkpointToSave busyPage (js ''c2'') (js ''t2'')"
  let ?db1 = "fst (POST emptyDatabase ?c1 (js ''t1''))"
  let ?db2 = "fst (POST ?db1 ?c2 (js ''t2''))"
  have h1: "POST emptyDatabase ?c1 (js ''t1'') = (?db1, Json (insertedRow ?c1 (js ''t1'')))"
    by (simp add: POST_def Let_def emptyDatabase_def)
  have h2: "POST ?db1 ?c2 (js ''t2'') = (?db2, Json (insertedRow ?c2 (js ''t2'')))"
    by (simp add: POST_def Let_def emptyDatabase_def insertedRow_fields supersede_id
                  checkpointToSave_fields c2_not_c1)
  have h3: "cp_sessionId ?c2 = cp_sessionId ?c1"
    by (simp add: checkpointToSave_fields)
  have s: "cp_sessionId ?c1 = js ''s1''"
    by (simp add: checkpointToSave_fields busyPage_def)
  from one_active_checkpoint_per_session [OF h1 h2 h3] h1 h2 h3 s show ?thesis by simp
qed

subsection \<open>Saving a checkpoint\<close>

lemma handleSaveCheckpoint_resolved:
  "fst (handleSaveCheckpoint seen newId now (Resolved code) newSessionId) =
     seen\<lparr>showCheckpointModal := False, checkpointTask := [], messages := [],
          tokenUsage := initialTokenUsage, sessionId := newSessionId\<rparr>"
  by (simp add: handleSaveCheckpoint_def Let_def)

lemma handleSaveCheckpoint_rejected:
  "fst (handleSaveCheckpoint seen newId now Rejected newSessionId) = seen"
  by (simp add: handleSaveCheckpoint_def Let_def)

lemma storeWithC1_rows:
  "session_checkpoints storeWithC1 = [insertedRow (checkpointToSave otherPage (js ''c1'') (js ''t0'')) (js ''t0'')]"
  by (simp add: storeWithC1_def POST_def Let_def emptyDatabase_def)

lemma s1_not_s0: "js ''s1'' \<noteq> js ''s0''"
  by (simp add: js_def)

lemma POST_taken:
  "POST storeWithC1 (checkpointToSave busyPage (js ''c1'') (js ''t1'')) (js ''t1'') =
     (storeWithC1, Status500 (js ''Failed to save checkpoint''))"
proof -
  have same: "map (supersede (js ''s1'') (js ''t1'')) (session_checkpoints storeWithC1)
                = session_checkpoints storeWithC1"
    using s1_not_s0
    by (simp add: storeWithC1_rows supersede_def insertedRow_fields checkpointToSave_fields
                  otherPage_def)
  have sid: "sessionId busyPage = js ''s1''"
    by (simp add: busyPage_def)
  show ?thesis
    by (simp add: POST_def Let_def checkpointToSave_fields sid same)
       (simp add: storeWithC1_rows insertedRow_fields checkpointToSave_fields)
qed

text \<open>
  C5. When the store refuses the write, the route answers 500 and persists nothing new,
  yet the page resets the session all the same: here the store already holds the id
  \<open>c1\<close>, the save of \<open>busyPage\<close> under that id is refused, no checkpoint of the
  session is active in the store, and the page's two messages, its usage and its session
  id are gone.
\<close>

theorem save_failure_resets_session:
  "saveThroughRoute storeWithC1 busyPage (js ''c1'') (js ''t1'') (js ''t1'') (js ''s2'') =
     (storeWithC1, 500,
      busyPage\<lparr>showCheckpointModal := False, checkpointTask := [], messages := [],
               tokenUsage := initialTokenUsage, sessionId := js ''s2''\<rparr>)
   \<and> activeRows storeWithC1 (sessionId busyPage) = []
   \<and> messages busyPage = [fourChars, zeroCounted]"
proof -
  have a: "activeRows storeWithC1 (sessionId busyPage) = []"
    using s1_not_s0
    by (simp add: activeRows_def storeWithC1_rows insertedRow_fields checkpointToSave_fields
                  otherPage_def busyPage_def)
  have m: "messages busyPage = [fourChars, zeroCounted]"
    by (simp add: busyPage_def)
  have "saveThroughRoute storeWithC1 busyPage (js ''c1'') (js ''t1'') (js ''t1'') (js ''s2'') =
     (storeWithC1, 500,
      busyPage\<lparr>showCheckpointModal := False, checkpointTask := [], messages := [],
               tokenUsage := initialTokenUsage, sessionId := js ''s2''\<rparr>)"
    by (simp add: saveThroughRoute_def POST_taken handleSaveCheckpoint_def Let_def)
  with a m show ?thesis by simp
qed

subsection \<open>Resuming from a checkpoint\<close>

lemma filter_singletonD:
  assumes "filter P xs = [x]"
  shows "P x"
proof -
  have "x \<in> set (filter P xs)"
    using assms by simp
  then show ?thesis by simp
qed

lemma PATCH_single:
  assumes "filter (\<lambda>r. row_id r = ident) (session_checkpoints db) = [row]"
  shows "PATCH db ident status now =
           (db\<lparr>session_checkpoints :=
                 map (\<lambda>r. if row_id r = ident then r\<lparr>row_status := status, updated_at := now\<rparr> else r)
                     (session_checkpoints db)\<rparr>,
            Json (row\<lparr>row_status := status, updated_at := now\<rparr>))"
proof -
  let ?upd = "\<lambda>r. if row_id r = ident then r\<lparr>row_status := status, updated_at := now\<rparr> else r"
  have comm: "filter (\<lambda>r. row_id r = ident) (map ?upd rows) =
              map ?upd (filter (\<lambda>r. row_id r = ident) rows)" for rows :: "('a, 'b) Row list"
    by (induction rows) simp_all
  have rid: "row_id row = ident"
    using filter_singletonD [OF assms] .
  have "filter (\<lambda>r. row_id r = ident) (map ?upd (session_checkpoints db)) =
          [row\<lparr>row_status := status, updated_at := now\<rparr>]"
    unfolding comm assms using rid by simp
  then show ?thesis
    by (simp add: PATCH_def Let_def)
qed

lemma rowObject_absent:
  "property (rowObject r) (js ''tokenUsage'') = Undefined"
  "property (rowObject r) (js ''sessionId'') = Undefined"
  "property (rowObject r) (js ''continuationPrompt'') = Undefined"
  by (simp_all add: property_def rowObject_def js_def)

lemma rowObject_present:
  "property (rowObject r) (js ''id'') = Str (row_id r)"
  "property (rowObject r) (js ''messages'') = Msgs (row_messages r)"
  "property (rowObject r) (js ''status'') = Str (statusName (row_status r))"
  "property (rowObject r) (js ''token_usage'') = Usage (token_usage r)"
  "property (rowObject r) (js ''session_id'') = Str (session_id r)"
  "property (rowObject r) (js ''continuation_prompt'') = Str (continuation_prompt r)"
  by (simp_all add: property_def rowObject_def js_def)

lemma GET_active_storeWithC1: "GET_active later storeWithC1 = Json (Some (rowObject rowC1))"
  by (simp add: GET_active_def storeWithC1_rows rowC1_def insertedRow_fields)

lemma offeredPage_eq:
  "offeredPage = initialPage\<lparr>activeCheckpoint := Some (rowObject rowC1),
                             showResumePrompt := True, sessionId := js ''s9''\<rparr>"
  by (simp add: offeredPage_def startThroughRoute_def GET_active_storeWithC1 initSession_def
                rowObject_present rowC1_def insertedRow_fields)

lemma rowC1_fields:
  "row_id rowC1 = js ''c1''"
  "session_id rowC1 = js ''s0''"
  "row_messages rowC1 = [fourChars, zeroCounted]"
  "token_usage rowC1 = updateTokenUsage initialTokenUsage 1 2"
  "continuation_prompt rowC1 = generateContinuationPrompt_page otherPage"
  by (simp_all add: rowC1_def insertedRow_def checkpointToSave_def otherPage_def busyPage_def)

text \<open>
  C6. The store holds one active checkpoint, the row \<open>rowC1\<close> of session \<open>s0\<close>. The page
  that starts against this store keeps, as its active checkpoint, the row as the route
  answers it, whose properties carry the names of the columns: \<open>session_id\<close>,
  \<open>token_usage\<close>, \<open>continuation_prompt\<close>. The resume prompt, which reads \<open>tokenUsage\<close>
  of that object, throws when it is rendered. And \<open>handleResume\<close> on that page, once the
  status request has resolved, sets the usage and the session id to \<open>undefined\<close>, not to
  the checkpoint's, and appends a user message whose content is \<open>undefined\<close>, not the
  checkpoint's continuation prompt; only the messages, and the id in the status request,
  are the checkpoint's.
\<close>

theorem resume_reads_absent_properties:
  "activeRows storeWithC1 (js ''s0'') = [rowC1]
   \<and> activeCheckpoint offeredPage = Some (rowObject rowC1)
   \<and> showResumePrompt offeredPage
   \<and> property (rowObject rowC1) (js ''session_id'') = Str (js ''s0'')
   \<and> property (rowObject rowC1) (js ''token_usage'') = Usage (updateTokenUsage initialTokenUsage 1 2)
   \<and> property (rowObject rowC1) (js ''continuation_prompt'')
        = Str (generateContinuationPrompt_page otherPage)
   \<and> resumePromptProgress offeredPage = Inl TypeError
   \<and> handleResume offeredPage (Resolved 200) (js ''m3'') (js ''t3'') (js ''m4'') (js ''t4'')
        (js ''m5'') (js ''t5'') =
       ([SetMessages (Msgs [fourChars, zeroCounted]),
         SetTokenUsage Undefined,
         SetSessionId Undefined,
         SetShowResumePrompt False,
         AppendMessage \<lparr> rm_id = js ''m3'', rm_role = User, rm_content = Undefined,
                         rm_timestamp = js ''t3'', rm_tokens = None \<rparr>],
        [CheckpointPATCH (Str (js ''c1'')) Resumed])"
proof -
  have rows: "activeRows storeWithC1 (js ''s0'') = [rowC1]"
    by (simp add: activeRows_def storeWithC1_rows rowC1_def insertedRow_fields
                  checkpointToSave_fields otherPage_def)
  have cells: "activeCheckpoint offeredPage = Some (rowObject rowC1)" "showResumePrompt offeredPage"
              "input offeredPage = []"
    by (simp_all add: offeredPage_eq initialPage_def)
  have modal: "resumePromptProgress offeredPage = Inl TypeError"
    by (simp add: resumePromptProgress_def cells rowObject_absent)
  have send: "handleSend_begin offeredPage Undefined (js ''m4'') (js ''t4'') (js ''m5'') (js ''t5'')
                = ([], [])"
    by (simp add: handleSend_begin_def cells trimsToEmpty_def)
  have resume: "handleResume offeredPage (Resolved 200) (js ''m3'') (js ''t3'') (js ''m4'') (js ''t4'')
        (js ''m5'') (js ''t5'') =
       ([SetMessages (Msgs [fourChars, zeroCounted]),
         SetTokenUsage Undefined,
         SetSessionId Undefined,
         SetShowResumePrompt False,
         AppendMessage \<lparr> rm_id = js ''m3'', rm_role = User, rm_content = Undefined,
                         rm_timestamp = js ''t3'', rm_tokens = None \<rparr>],
        [CheckpointPATCH (Str (js ''c1'')) Resumed])"
    by (simp add: handleResume_def cells rowObject_absent rowObject_present send rowC1_fields Let_def)
  from rows cells modal resume show ?thesis
    by (simp add: rowObject_present rowC1_fields)
qed

subsection \<open>The continuation prompt\<close>

lemma length_js: "length (js s) = length s"
  by (simp add: js_def)

lemma length_slice_last: "length (slice_last n xs) = min n (length xs)"
  by (simp add: slice_last_def)

lemma slice_last_suffix: "take (length xs - n) xs @ slice_last n xs = xs"
  by (simp add: slice_last_def)

lemma length_roleUpperCase: "length (roleUpperCase r) \<le> 9"
  by (cases r) (simp_all add: length_js)

lemma summaryLine_length: "length (summaryLine w m) \<le> 9 + 2 + w + 3"
  using length_roleUpperCase [of "role m"]
  by (simp add: summaryLine_def length_js)

lemma summaryLine_ellipsis:
  "drop (length (summaryLine w m) - 3) (summaryLine w m) = js ''...''"
  by (simp add: summaryLine_def length_js)

lemma slice_last_map: "slice_last n (map f xs) = map f (slice_last n xs)"
  by (simp add: slice_last_def drop_map)

lemma slice_last_five: "slice_last 5 (older @ [m1, m2, m3, m4, m5]) = [m1, m2, m3, m4, m5]"
  by (simp add: slice_last_def)

lemma slice_last_six: "slice_last 6 (older @ [m1, m2, m3, m4, m5, m6]) = [m1, m2, m3, m4, m5, m6]"
  by (simp add: slice_last_def)

lemma summaryLine_truncated: "summaryLine w (m\<lparr>content := take w (content m)\<rparr>) = summaryLine w m"
  by (simp add: summaryLine_def)

text \<open>
  C9, as the code has it. The library's prompt is its heading, task, step lists, then
  the rendering of exactly the last 5 messages (all of them when there are fewer), one
  line each, then the variables and, last, the instruction line; the page's prompt is the
  same with its own heading and instruction line and exactly the last 6 messages. A line
  is the role in upper case, a colon and a space, the first 200 code units of the content
  (150 for the page), and then always the three dots, whether or not the content was
  longer. So messages older than the last 5 (6) do not change the prompt, and neither
  does what a content has beyond its first 200 (150) code units.
\<close>

theorem continuation_prompt_rendering:
  "generateContinuationPrompt stringify cp =
     js ''## SESSION RESUME - '' @ cp_id cp @ nl
     @ nl
     @ js ''**Task:** '' @ cp_taskDescription cp @ nl
     @ nl
     @ js ''### Progress'' @ nl
     @ js ''**Completed:**'' @ nl
     @ join nl (map (\<lambda>s. js ''- '' @ [0x2705] @ js '' '' @ s) (cp_completedSteps cp)) @ nl
     @ nl
     @ js ''**Current:** '' @ cp_currentStep cp @ nl
     @ nl
     @ js ''**Next Steps:**'' @ nl
     @ join nl (map (\<lambda>s. js ''- '' @ [0x23F3] @ js '' '' @ s) (cp_nextSteps cp)) @ nl
     @ nl
     @ js ''### Recent Context'' @ nl
     @ join nl (map (\<lambda>m. roleUpperCase (role m) @ js '': '' @ take 200 (content m) @ js ''...'')
                    (drop (length (cp_messages cp) - 5) (cp_messages cp))) @ nl
     @ nl
     @ js ''### Variables'' @ nl
     @ stringify (cp_contextVariables cp) @ nl
     @ nl
     @ js ''**INSTRUCTION:** Continue from '' @ [0x22] @ cp_currentStep cp @ [0x22]
     @ js '' immediately. No confirmation needed.''
   \<and> generateContinuationPrompt_page seen =
       js ''## SESSION RESUME'' @ nl
       @ nl
       @ js ''**Task:** ''
       @ (if checkpointTask seen \<noteq> [] then checkpointTask seen
          else js ''Continuing previous conversation'') @ nl
       @ nl
       @ js ''### Recent Context:'' @ nl
       @ join nl (map (\<lambda>m. roleUpperCase (role m) @ js '': '' @ take 150 (content m) @ js ''...'')
                      (drop (length (messages seen) - 6) (messages seen))) @ nl
       @ nl
       @ js ''**INSTRUCTION:** Continue the conversation from where we left off. No need to reintroduce yourself or ask what we were doing - just pick up naturally.''
   \<and> generateContinuationPrompt stringify (cp\<lparr>cp_messages := older @ [m1, m2, m3, m4, m5]\<rparr>) =
       generateContinuationPrompt stringify (cp\<lparr>cp_messages := [m1, m2, m3, m4, m5]\<rparr>)
   \<and> generateContinuationPrompt_page (seen\<lparr>messages := older @ [m1, m2, m3, m4, m5, m6]\<rparr>) =
       generateContinuationPrompt_page (seen\<lparr>messages := [m1, m2, m3, m4, m5, m6]\<rparr>)
   \<and> generateContinuationPrompt stringify
         (cp\<lparr>cp_messages := map (\<lambda>m. m\<lparr>content := take 200 (content m)\<rparr>) (cp_messages cp)\<rparr>) =
       generateContinuationPrompt stringify cp
   \<and> generateContinuationPrompt_page
         (seen\<lparr>messages := map (\<lambda>m. m\<lparr>content := take 150 (content m)\<rparr>) (messages seen)\<rparr>) =
       generateContinuationPrompt_page seen"
proof -
  have lib: "generateContinuationPrompt stringify cp =
     js ''## SESSION RESUME - '' @ cp_id cp @ nl
     @ nl
     @ js ''**Task:** '' @ cp_taskDescription cp @ nl
     @ nl
     @ js ''### Progress'' @ nl
     @ js ''**Completed:**'' @ nl
     @ join nl (map (\<lambda>s. js ''- '' @ [0x2705] @ js '' '' @ s) (cp_completedSteps cp)) @ nl
     @ nl
     @ js ''**Current:** '' @ cp_currentStep cp @ nl
     @ nl
     @ js ''**Next Steps:**'' @ nl
     @ join nl (map (\<lambda>s. js ''- '' @ [0x23F3] @ js '' '' @ s) (cp_nextSteps cp)) @ nl
     @ nl
     @ js ''### Recent Context'' @ nl
     @ join nl (map (\<lambda>m. roleUpperCase (role m) @ js '': '' @ take 200 (content m) @ js ''...'')
                    (drop (length (cp_messages cp) - 5) (cp_messages cp))) @ nl
     @ nl
     @ js ''### Variables'' @ nl
     @ stringify (cp_contextVariables cp) @ nl
     @ nl
     @ js ''**INSTRUCTION:** Continue from '' @ [0x22] @ cp_currentStep cp @ [0x22]
     @ js '' immediately. No confirmation needed.''"
    by (simp add: generateContinuationPrompt_def Let_def slice_last_def summaryLine_def [abs_def]
                  instructionLine_def)
  have page: "generateContinuationPrompt_page seen =
       js ''## SESSION RESUME'' @ nl
       @ nl
       @ js ''**Task:** ''
       @ (if checkpointTask seen \<noteq> [] then checkpointTask seen
          else js ''Continuing previous conversation'') @ nl
       @ nl
       @ js ''### Recent Context:'' @ nl
       @ join nl (map (\<lambda>m. roleUpperCase (role m) @ js '': '' @ take 150 (content m) @ js ''...'')
                      (drop (length (messages seen) - 6) (messages seen))) @ nl
       @ nl
       @ js ''**INSTRUCTION:** Continue the conversation from where we left off. No need to reintroduce yourself or ask what we were doing - just pick up naturally.''"
    by (simp add: generateContinuationPrompt_page_def Let_def slice_last_def summaryLine_def [abs_def]
                  instructionLine_page_def)
  have old5: "generateContinuationPrompt stringify (cp\<lparr>cp_messages := older @ [m1, m2, m3, m4, m5]\<rparr>) =
       generateContinuationPrompt stringify (cp\<lparr>cp_messages := [m1, m2, m3, m4, m5]\<rparr>)"
    by (simp add: generateContinuationPrompt_def Let_def slice_last_five)
       (simp add: slice_last_def)
  have old6: "generateContinuationPrompt_page (seen\<lparr>messages := older @ [m1, m2, m3, m4, m5, m6]\<rparr>) =
       generateContinuationPrompt_page (seen\<lparr>messages := [m1, m2, m3, m4, m5, m6]\<rparr>)"
    by (simp add: generateContinuationPrompt_page_def Let_def slice_last_six)
       (simp add: slice_last_def)
  have cut200: "generateContinuationPrompt stringify
         (cp\<lparr>cp_messages := map (\<lambda>m. m\<lparr>content := take 200 (content m)\<rparr>) (cp_messages cp)\<rparr>) =
       generateContinuationPrompt stringify cp"
    by (simp add: generateContinuationPrompt_def Let_def slice_last_map summaryLine_truncated comp_def)
  have cut150: "generateContinuationPrompt_page
         (seen\<lparr>messages := map (\<lambda>m. m\<lparr>content := take 150 (content m)\<rparr>) (messages seen)\<rparr>) =
       generateContinuationPrompt_page seen"
    by (simp add: generateContinuationPrompt_page_def Let_def slice_last_map summaryLine_truncated comp_def)
  from lib page old5 old6 cut200 cut150 show ?thesis by (intro conjI)
qed

text \<open>
  C9 as stated fails: the message \<open>fourChars\<close> has 4 code units, fewer than the prefix
  length, and is not truncated, yet its line in the library's prompt, and in the page's,
  ends with the three dots.
\<close>

theorem ellipsis_on_short_message:
  "length (content fourChars) \<le> 150
   \<and> take 200 (content fourChars) = content fourChars
   \<and> summaryLine 200 fourChars = js ''USER: abcd...''
   \<and> summaryLine 150 fourChars = js ''USER: abcd...''
   \<and> generateContinuationPrompt (\<lambda>vars. js ''{}'') shortCheckpoint =
       js ''## SESSION RESUME - c1'' @ nl
       @ nl
       @ js ''**Task:** Fix billing bug'' @ nl
       @ nl
       @ js ''### Progress'' @ nl
       @ js ''**Completed:**'' @ nl
       @ js ''- '' @ [0x2705] @ js '' Read logs'' @ nl
       @ nl
       @ js ''**Current:** Debugging invoice calc'' @ nl
       @ nl
       @ js ''**Next Steps:**'' @ nl
       @ js ''- '' @ [0x23F3] @ js '' Write test'' @ nl
       @ js ''- '' @ [0x23F3] @ js '' Deploy'' @ nl
       @ nl
       @ js ''### Recent Context'' @ nl
       @ js ''USER: abcd...'' @ nl
       @ nl
       @ js ''### Variables'' @ nl
       @ js ''{}'' @ nl
       @ nl
       @ js ''**INSTRUCTION:** Continue from '' @ [0x22] @ js ''Debugging invoice calc'' @ [0x22]
       @ js '' immediately. No confirmation needed.''
   \<and> generateContinuationPrompt_page (busyPage\<lparr>messages := [fourChars]\<rparr>) =
       js ''## SESSION RESUME'' @ nl
       @ nl
       @ js ''**Task:** Continuing previous conversation'' @ nl
       @ nl
       @ js ''### Recent Context:'' @ nl
       @ js ''USER: abcd...'' @ nl
       @ nl
       @ instructionLine_page"
proof -
  have len: "length (content fourChars) \<le> 150" "take 200 (content fourChars) = content fourChars"
    by (simp_all add: fourChars_def js_def)
  have line: "summaryLine 200 fourChars = js ''USER: abcd...''"
             "summaryLine 150 fourChars = js ''USER: abcd...''"
    by (simp_all add: summaryLine_def fourChars_def js_def)
  have lib: "generateContinuationPrompt (\<lambda>vars. js ''{}'') shortCheckpoint =
       js ''## SESSION RESUME - c1'' @ nl
       @ nl
       @ js ''**Task:** Fix billing bug'' @ nl
       @ nl
       @ js ''### Progress'' @ nl
       @ js ''**Completed:**'' @ nl
       @ js ''- '' @ [0x2705] @ js '' Read logs'' @ nl
       @ nl
       @ js ''**Current:** Debugging invoice calc'' @ nl
       @ nl
       @ js ''**Next Steps:**'' @ nl
       @ js ''- '' @ [0x23F3] @ js '' Write test'' @ nl
       @ js ''- '' @ [0x23F3] @ js '' Deploy'' @ nl
       @ nl
       @ js ''### Recent Context'' @ nl
       @ js ''USER: abcd...'' @ nl
       @ nl
       @ js ''### Variables'' @ nl
       @ js ''{}'' @ nl
       @ nl
       @ js ''**INSTRUCTION:** Continue from '' @ [0x22] @ js ''Debugging invoice calc'' @ [0x22]
       @ js '' immediately. No confirmation needed.''"
    by (simp add: generateContinuationPrompt_def shortCheckpoint_def fourChars_def Let_def
                  slice_last_def summaryLine_def instructionLine_def nl_def js_def)
  have page: "generateContinuationPrompt_page (busyPage\<lparr>messages := [fourChars]\<rparr>) =
       js ''## SESSION RESUME'' @ nl
       @ nl
       @ js ''**Task:** Continuing previous conversation'' @ nl
       @ nl
       @ js ''### Recent Context:'' @ nl
       @ js ''USER: abcd...'' @ nl
       @ nl
       @ instructionLine_page"
    by (simp add: generateContinuationPrompt_page_def busyPage_def fourChars_def Let_def
                  slice_last_def summaryLine_def instructionLine_page_def nl_def js_def)
  from len line lib page show ?thesis by simp
qed

end
